theory Spec2Isabelle
  imports Main "HOL-Library.Word" "HOL-Library.Sublist"
begin

unbundle bit_operations_syntax

section \<open>Terminal attributes (the constants of package termbox that the source uses)\<close>

text \<open>
  \<^verbatim>\<open>termbox.Attribute\<close> is an unsigned machine word; a colour is a small number
  (\<^verbatim>\<open>ColorDefault Attribute = iota\<close>, then black, red, ...) and a text attribute is a
  single bit above the colours (\<^verbatim>\<open>AttrBold Attribute = 1 << (iota + 9)\<close>, then blink,
  hidden, dim, underline, cursive, reverse).  The values are those the library declares;
  \<^verbatim>\<open>markup.go\<close> only names them.  What is proved below uses no more of them than
  this: every colour is below \<open>AttrBold\<close>, and \<open>AttrBold\<close> and \<open>AttrUnderline\<close>
  are two different single bits.
\<close>

type_synonym Attribute = "64 word"

definition ColorDefault :: Attribute where "ColorDefault = 0"
definition ColorBlack :: Attribute where "ColorBlack = 1"
definition ColorRed :: Attribute where "ColorRed = 2"
definition ColorGreen :: Attribute where "ColorGreen = 3"
definition ColorYellow :: Attribute where "ColorYellow = 4"
definition ColorBlue :: Attribute where "ColorBlue = 5"
definition ColorMagenta :: Attribute where "ColorMagenta = 6"
definition ColorCyan :: Attribute where "ColorCyan = 7"
definition ColorWhite :: Attribute where "ColorWhite = 8"
definition ColorDarkGray :: Attribute where "ColorDarkGray = 9"
definition ColorLightRed :: Attribute where "ColorLightRed = 10"
definition ColorLightGreen :: Attribute where "ColorLightGreen = 11"
definition ColorLightYellow :: Attribute where "ColorLightYellow = 12"
definition ColorLightBlue :: Attribute where "ColorLightBlue = 13"
definition ColorLightMagenta :: Attribute where "ColorLightMagenta = 14"
definition ColorLightCyan :: Attribute where "ColorLightCyan = 15"
definition ColorLightGray :: Attribute where "ColorLightGray = 16"

definition AttrBold :: Attribute where "AttrBold = push_bit 9 1"
definition AttrUnderline :: Attribute where "AttrUnderline = push_bit 13 1"
definition AttrReverse :: Attribute where "AttrReverse = push_bit 15 1"

lemmas termbox_defs =
  ColorDefault_def ColorBlack_def ColorRed_def ColorGreen_def ColorYellow_def
  ColorBlue_def ColorMagenta_def ColorCyan_def ColorWhite_def ColorDarkGray_def
  ColorLightRed_def ColorLightGreen_def ColorLightYellow_def ColorLightBlue_def
  ColorLightMagenta_def ColorLightCyan_def ColorLightGray_def
  AttrBold_def AttrUnderline_def AttrReverse_def

section \<open>pkg/view/markup.go\<close>

text \<open>\<^verbatim>\<open>var terminalColor = map[string]termbox.Attribute{...}\<close>; reading a key that is
  not in a Go map gives the zero value.\<close>

definition terminalColor :: "(string \<times> Attribute) list" where
  "terminalColor =
    [(''black'', ColorBlack),
     (''blue'', ColorBlue),
     (''cyan'', ColorCyan),
     (''darkgray'', ColorDarkGray),
     (''default'', ColorDefault),
     (''green'', ColorGreen),
     (''lightblue'', ColorLightBlue),
     (''lightcyan'', ColorLightCyan),
     (''lightgray'', ColorLightGray),
     (''lightgreen'', ColorLightGreen),
     (''lightmagenta'', ColorLightMagenta),
     (''lightred'', ColorLightRed),
     (''lightyellow'', ColorLightYellow),
     (''magenta'', ColorMagenta),
     (''red'', ColorRed),
     (''white'', ColorWhite),
     (''yellow'', ColorYellow)]"

definition terminalColor_at :: "string \<Rightarrow> Attribute" where
  "terminalColor_at name = (case map_of terminalColor name of None \<Rightarrow> 0 | Some a \<Rightarrow> a)"

text \<open>\<^verbatim>\<open>config.Color\<close>: the two fields \<^verbatim>\<open>NewMarkup\<close> reads.\<close>

record Color =
  Highlight :: string
  Market :: string

text \<open>The compiled pattern \<^verbatim>\<open></?t1>|</?t2>|...\<close>, kept as the list of its
  alternatives, each alternative \<^verbatim>\<open></?t>\<close> by its tag name \<open>t\<close>.\<close>

type_synonym Regexp = "string list"

record Markup =
  Foreground :: Attribute
  Background :: Attribute
  RightAligned :: bool
  tags :: "(string \<times> Attribute) list"
  regex :: Regexp

definition supportedTags :: "(string \<times> Attribute) list \<Rightarrow> Regexp" where
  "supportedTags tgs = map fst tgs"

definition NewMarkup :: "Color \<Rightarrow> Markup" where
  "NewMarkup color =
    (let tgs = [(''/'', ColorDefault),
                (''base'', ColorWhite),
                (''highlight'', terminalColor_at (Highlight color)),
                (''market'', terminalColor_at (Market color)),
                (''right'', ColorDefault),
                (''b'', AttrBold),
                (''u'', AttrUnderline),
                (''r'', AttrReverse)]
     in \<lparr>Foreground = ColorDefault, Background = ColorDefault, RightAligned = False,
         tags = tgs, regex = supportedTags tgs\<rparr>)"

subsection \<open>Matching the tag pattern (package regexp, for patterns of this shape)\<close>

text \<open>One alternative \<^verbatim>\<open></?t>\<close> against the front of \<open>s\<close>: the length of the match.
  The optional slash is greedy, so the form with the slash is tried first.\<close>

definition match_tag :: "string \<Rightarrow> string \<Rightarrow> nat option" where
  "match_tag t s =
    (case s of
       [] \<Rightarrow> None
     | c # r \<Rightarrow>
         if c \<noteq> CHR ''<'' then None
         else if prefix (CHR ''/'' # t @ ''>'') r then Some (length t + 3)
         else if prefix (t @ ''>'') r then Some (length t + 2)
         else None)"

text \<open>The alternation at one position: the first alternative that matches.\<close>

fun match_here :: "Regexp \<Rightarrow> string \<Rightarrow> nat option" where
  "match_here [] s = None"
| "match_here (t # ts) s =
    (case match_tag t s of Some n \<Rightarrow> Some n | None \<Rightarrow> match_here ts s)"

lemma match_tag_bounds: "match_tag t s = Some n \<Longrightarrow> 0 < n \<and> n \<le> length s"
  by (auto simp: match_tag_def prefix_def split: list.splits if_splits)

lemma match_here_bounds: "match_here ts s = Some n \<Longrightarrow> 0 < n \<and> n \<le> length s"
  by (induction ts) (auto split: option.splits dest: match_tag_bounds)

text \<open>\<^verbatim>\<open>FindAllStringIndex(str, -1)\<close>: the successive leftmost matches that do not
  overlap, as pairs of start and end offset.  \<open>pos\<close> is the offset of \<open>s\<close> in the
  whole string.\<close>

function FindAllStringIndex_from :: "Regexp \<Rightarrow> nat \<Rightarrow> string \<Rightarrow> (nat \<times> nat) list" where
  "FindAllStringIndex_from re pos [] = []"
| "FindAllStringIndex_from re pos (c # cs) =
    (case match_here re (c # cs) of
       Some n \<Rightarrow> (pos, pos + n) # FindAllStringIndex_from re (pos + n) (drop n (c # cs))
     | None \<Rightarrow> FindAllStringIndex_from re (pos + 1) cs)"
  by pat_completeness auto
termination
  by (relation "measure (\<lambda>(re, pos, s). length s)") (auto dest: match_here_bounds)

definition FindAllStringIndex :: "Regexp \<Rightarrow> string \<Rightarrow> (nat \<times> nat) list" where
  "FindAllStringIndex re str = FindAllStringIndex_from re 0 str"

subsection \<open>Tokenize\<close>

text \<open>The slice expression \<^verbatim>\<open>str[lo:hi]\<close>; out of range it panics (\<open>None\<close>).\<close>

definition substr :: "string \<Rightarrow> nat \<Rightarrow> nat \<Rightarrow> string option" where
  "substr str lo hi =
    (if lo \<le> hi \<and> hi \<le> length str then Some (take (hi - lo) (drop lo str)) else None)"

text \<open>The body of \<^verbatim>\<open>for _, match := range matches\<close>, with the three variables the loop
  updates.\<close>

fun Tokenize_loop ::
  "string \<Rightarrow> (nat \<times> nat) list \<Rightarrow> nat \<Rightarrow> nat \<Rightarrow> string list \<Rightarrow> (nat \<times> nat \<times> string list) option"
where
  "Tokenize_loop str [] head tail strings = Some (head, tail, strings)"
| "Tokenize_loop str (mt # matches) head tail strings =
    (let tail = fst mt in
     if snd mt \<noteq> 0 then
       (case (if head \<noteq> 0 \<or> tail \<noteq> 0
              then map_option (\<lambda>text. strings @ [text]) (substr str head tail)
              else Some strings) of
          None \<Rightarrow> None
        | Some strings \<Rightarrow>
            (case substr str (fst mt) (snd mt) of
               None \<Rightarrow> None
             | Some tag \<Rightarrow> Tokenize_loop str matches (snd mt) tail (strings @ [tag])))
     else Tokenize_loop str matches (snd mt) tail strings)"

definition Tokenize :: "Markup \<Rightarrow> string \<Rightarrow> string list option" where
  "Tokenize markup str =
    (case Tokenize_loop str (FindAllStringIndex (regex markup) str) 0 0 [] of
       None \<Rightarrow> None
     | Some (head, tail, strings) \<Rightarrow>
         if head \<noteq> length str \<and> tail \<noteq> length str
         then map_option (\<lambda>text. strings @ [text]) (substr str head (length str))
         else Some strings)"

text \<open>A list of matches in increasing order, each not empty, none overlapping, all
  between \<open>lo\<close> and \<open>n\<close>.\<close>

fun ordered_matches :: "nat \<Rightarrow> nat \<Rightarrow> (nat \<times> nat) list \<Rightarrow> bool" where
  "ordered_matches lo n [] = True"
| "ordered_matches lo n (mt # ms) =
    (lo \<le> fst mt \<and> fst mt < snd mt \<and> snd mt \<le> n \<and> ordered_matches (snd mt) n ms)"

subsection \<open>IsTag\<close>

text \<open>
  Every slice expression of \<^verbatim>\<open>extractTagName\<close> and \<^verbatim>\<open>probeForTag\<close> comes after a test
  of the length that keeps it in range, so \<open>take\<close> and \<open>drop\<close> give what the slices
  give: \<^verbatim>\<open>str[1:2]\<close> is \<open>take 1 (drop 1 str)\<close>, and so on.  The parameter \<^verbatim>\<open>open\<close> of
  \<^verbatim>\<open>process\<close> is \<open>opn\<close> here.  A function that changes the markup returns it next
  to its result.
\<close>

definition extractTagName :: "string \<Rightarrow> string" where
  "extractTagName str =
    (if length str < 3 then ''''
     else if take 1 (drop 1 str) \<noteq> ''/'' then take (length str - 1 - 1) (drop 1 str)
     else if length str > 3 then take (length str - 1 - 2) (drop 2 str)
     else ''/'')"

definition probeForTag :: "string \<Rightarrow> string \<times> bool" where
  "probeForTag str =
    (if length str > 2 \<and> take 1 str = ''<'' \<and> drop (length str - 1) str = ''>''
     then (extractTagName str, take 1 (drop 1 str) \<noteq> ''/'')
     else ('''', False))"

definition process :: "Markup \<Rightarrow> string \<Rightarrow> bool \<Rightarrow> bool \<times> Markup" where
  "process markup tag opn =
    (case map_of (tags markup) tag of
       Some attribute \<Rightarrow>
         (True,
          if tag = ''right'' then markup\<lparr>RightAligned := opn\<rparr>
          else if opn then
            (if attribute \<ge> AttrBold
             then markup\<lparr>Foreground := Foreground markup OR attribute\<rparr>
             else markup\<lparr>Foreground := attribute\<rparr>)
          else
            (if attribute \<ge> AttrBold
             then markup\<lparr>Foreground := Foreground markup AND NOT attribute\<rparr>
             else markup\<lparr>Foreground := ColorDefault\<rparr>))
     | None \<Rightarrow> (True, markup))"

definition IsTag :: "Markup \<Rightarrow> string \<Rightarrow> bool \<times> Markup" where
  "IsTag markup str =
    (case probeForTag str of
       (tag, opn) \<Rightarrow> if tag = '''' then (False, markup) else process markup tag opn)"

text \<open>The render states: \<^verbatim>\<open>NewMarkup\<close> fixes \<open>tags\<close> and \<open>regex\<close>, nothing
  assigns them afterwards, and the other three fields are free.\<close>

definition render_state :: "Color \<Rightarrow> Attribute \<Rightarrow> Attribute \<Rightarrow> bool \<Rightarrow> Markup" where
  "render_state color fg bg ra =
    (NewMarkup color)\<lparr>Foreground := fg, Background := bg, RightAligned := ra\<rparr>"

section \<open>pkg/model: the quote record\<close>

text \<open>\<^verbatim>\<open>type Stock struct\<close>.\<close>

record Stock =
  Ticker :: string
  LastTrade :: string
  Change :: string
  ChangePct :: string
  Open :: string
  Low :: string
  High :: string
  Low52 :: string
  High52 :: string
  Volume :: string
  AvgVolume :: string
  PeRatio :: string
  PeRatioX :: string
  Dividend :: string
  Yield :: string
  MarketCap :: string
  MarketCapX :: string
  Currency :: string
  Advancing :: bool
  PreOpen :: string
  AfterHours :: string

section \<open>The filter (pkg/view, second part of markup.go)\<close>

text \<open>
  A value of type \<^verbatim>\<open>interface{}\<close>: a boolean, a string, or a value of another dynamic
  type \<open>'a\<close> (the numbers that the helpers \<^verbatim>\<open>m\<close> and \<^verbatim>\<open>c\<close> and the expression
  engine produce are floating point and stay abstract).
\<close>

datatype 'a iface = Bool bool | Str string | Other 'a

text \<open>
  \<^verbatim>\<open>config.Profile\<close>, with the fields that the sources read or assign.  The
  declaration is not among the sources.  \<open>FilterExpression\<close> stands for the compiled
  expression with its method \<^verbatim>\<open>Evaluate(values) (interface{}, error)\<close>: the bindings
  go in, an error message (\<open>Inl\<close>) or a value comes out.  (Whether the field can
  be \<^verbatim>\<open>nil\<close> cannot be read off the sources; the model has no \<^verbatim>\<open>nil\<close> expression.)
\<close>

record 'a Profile =
  Tickers :: "string list"
  SortColumn :: "64 word"
  SelectedColumn :: "64 word"
  Filter :: string
  FilterExpression :: "(string \<times> 'a iface) list \<Rightarrow> string + 'a iface"

text \<open>A panic carries an error or a string.\<close>

datatype panic = PanicError string | PanicString string

text \<open>
  The map literal \<^verbatim>\<open>values\<close> of \<^verbatim>\<open>Apply\<close>, with its keys in the order of the source.
  \<^verbatim>\<open>strings.TrimSpace\<close> and the package helpers \<^verbatim>\<open>m\<close> and \<^verbatim>\<open>c\<close> (declared in a
  file that is not among the sources) are parameters.
\<close>

definition filter_values ::
  "(string \<Rightarrow> string) \<Rightarrow> (string \<Rightarrow> 'a iface) \<Rightarrow> (string \<Rightarrow> 'a iface) \<Rightarrow> Stock
    \<Rightarrow> (string \<times> 'a iface) list"
where
  "filter_values TrimSpace m c stock =
    [(''ticker'', Str (TrimSpace (Ticker stock))),
     (''last'', m (LastTrade stock)),
     (''change'', c (Change stock)),
     (''changePercent'', c (ChangePct stock)),
     (''open'', m (Open stock)),
     (''low'', m (Low stock)),
     (''high'', m (High stock)),
     (''low52'', m (Low52 stock)),
     (''high52'', m (High52 stock)),
     (''volume'', m (Volume stock)),
     (''avgVolume'', m (AvgVolume stock)),
     (''pe'', m (PeRatio stock)),
     (''peX'', m (PeRatioX stock)),
     (''dividend'', m (Dividend stock)),
     (''yield'', m (Yield stock)),
     (''mktCap'', m (MarketCap stock)),
     (''mktCapX'', m (MarketCapX stock)),
     (''advancing'', Bool (Advancing stock))]"

text \<open>The loop of \<^verbatim>\<open>Apply\<close> over the records that remain, with \<open>filteredStocks\<close>
  as built so far.  A panic ends the call: nothing is returned.\<close>

fun Apply_loop ::
  "(string \<Rightarrow> string) \<Rightarrow> (string \<Rightarrow> 'a iface) \<Rightarrow> (string \<Rightarrow> 'a iface) \<Rightarrow> 'a Profile
    \<Rightarrow> Stock list \<Rightarrow> Stock list \<Rightarrow> panic + Stock list"
where
  "Apply_loop TrimSpace m c profile [] filteredStocks = Inr filteredStocks"
| "Apply_loop TrimSpace m c profile (stock # stocks) filteredStocks =
    (case FilterExpression profile (filter_values TrimSpace m c stock) of
       Inl err \<Rightarrow> Inl (PanicError err)
     | Inr result \<Rightarrow>
         (case result of
            Bool truthy \<Rightarrow>
              Apply_loop TrimSpace m c profile stocks
                (if truthy then filteredStocks @ [stock] else filteredStocks)
          | Str s \<Rightarrow>
              Inl (PanicString
                (''Expression `'' @ Filter profile @ ''` should return a boolean value''))
          | Other v \<Rightarrow>
              Inl (PanicString
                (''Expression `'' @ Filter profile @ ''` should return a boolean value''))))"

definition Apply ::
  "(string \<Rightarrow> string) \<Rightarrow> (string \<Rightarrow> 'a iface) \<Rightarrow> (string \<Rightarrow> 'a iface) \<Rightarrow> 'a Profile
    \<Rightarrow> Stock list \<Rightarrow> panic + Stock list"
where
  "Apply TrimSpace m c profile stocks = Apply_loop TrimSpace m c profile stocks []"

text \<open>Whether an evaluation gave a boolean: the two checks of \<^verbatim>\<open>Apply\<close> together
  (\<^verbatim>\<open>err != nil\<close>, then the type assertion \<^verbatim>\<open>result.(bool)\<close>).\<close>

definition yields_boolean :: "string + 'a iface \<Rightarrow> bool" where
  "yields_boolean r = (case r of Inr (Bool b) \<Rightarrow> True | _ \<Rightarrow> False)"

section \<open>Events, the screen and the collaborators of the editors\<close>

text \<open>
  \<^verbatim>\<open>termbox.Event\<close> with the fields the sources read.  The key codes that the sources
  name are constructors; \<open>KeyOther\<close> is any other code (also the code 0 of an event
  that carries a character).  \<open>Ch\<close> is the rune, by its code point.
\<close>

datatype EventType = EventKey | EventResize | EventMouse | EventError | EventInterrupt
  | EventRaw | EventNone

datatype Key = KeyEsc | KeyEnter | KeyArrowLeft | KeyArrowRight | KeyOther

record Event =
  Type :: EventType
  Key :: Key
  Ch :: nat

definition rune :: "char \<Rightarrow> nat" where
  "rune ch = of_char ch"

text \<open>
  The calls that leave the sources: the methods of \<^verbatim>\<open>Screen\<close> and
  \<^verbatim>\<open>termbox.Flush\<close>.  They are recorded, in order, in a trace.  \<open>Drawable\<close> names
  the arguments that \<^verbatim>\<open>screen.Draw\<close> is given: \<^verbatim>\<open>market\<close>, \<^verbatim>\<open>quotes\<close>,
  \<^verbatim>\<open>time.Now()\<close> and the text \<^verbatim>\<open>help\<close>.
\<close>

datatype Drawable = TheMarket | TheQuotes | TheTime | TheHelp

datatype Call =
    Draw "Drawable list"
  | Clear
  | Resize
  | Pause bool
  | DrawLine nat nat string
  | Flush

text \<open>What the dispatcher and the editors share: the profile and the terminal.\<close>

record 'a World =
  profile :: "'a Profile"
  trace :: "Call list"

definition call :: "Call \<Rightarrow> 'a World \<Rightarrow> 'a World" where
  "call c w = w\<lparr>trace := trace w @ [c]\<rparr>"

text \<open>
  The code that the dispatcher and the column editor call and that is not among the
  sources: \<^verbatim>\<open>Layout\<close> (\<^verbatim>\<open>TotalColumns\<close>, \<^verbatim>\<open>Header\<close>), the methods \<^verbatim>\<open>Reorder\<close>,
  \<^verbatim>\<open>Regroup\<close> and \<^verbatim>\<open>SetFilter\<close> of the profile (for the first two: whether the
  result is \<^verbatim>\<open>nil\<close>), and the line editor with its state \<open>'le\<close>
  (\<^verbatim>\<open>NewLineEditor\<close>, \<^verbatim>\<open>Prompt\<close>, \<^verbatim>\<open>Handle\<close>).  They are parameters of the model.
\<close>

record ('a, 'le) Collab =
  TotalColumns :: "64 word"
  Header :: "'a Profile \<Rightarrow> string"
  Reorder :: "'a World \<Rightarrow> bool \<times> 'a World"
  Regroup :: "'a World \<Rightarrow> bool \<times> 'a World"
  SetFilter :: "string \<Rightarrow> 'a World \<Rightarrow> 'a World"
  NewLineEditor :: "'a World \<Rightarrow> 'le"
  Prompt :: "'le \<Rightarrow> nat \<Rightarrow> 'a World \<Rightarrow> 'le \<times> 'a World"
  LineEditor_Handle :: "'le \<Rightarrow> Event \<Rightarrow> 'a World \<Rightarrow> bool \<times> 'le \<times> 'a World"

section \<open>pkg/view/column_editor.go\<close>

text \<open>
  The editor is four pointers into what is shared, so it has no state of its own.
  \<^verbatim>\<open>SelectedColumn\<close> is a Go \<^verbatim>\<open>int\<close>: a 64-bit word, compared as a signed number.
\<close>

datatype ColumnEditor = ColumnEditor

definition redrawHeader :: "('a, 'le) Collab \<Rightarrow> 'a World \<Rightarrow> 'a World" where
  "redrawHeader x w = call Flush (call (DrawLine 0 4 (Header x (profile w))) w)"

definition selectCurrentColumn :: "('a, 'le) Collab \<Rightarrow> 'a World \<Rightarrow> 'a World" where
  "selectCurrentColumn x w =
    redrawHeader x (w\<lparr>profile := (profile w)\<lparr>SelectedColumn := SortColumn (profile w)\<rparr>\<rparr>)"

definition NewColumnEditor :: "('a, 'le) Collab \<Rightarrow> 'a World \<Rightarrow> ColumnEditor \<times> 'a World" where
  "NewColumnEditor x w = (ColumnEditor, selectCurrentColumn x w)"

definition selectLeftColumn :: "('a, 'le) Collab \<Rightarrow> 'a World \<Rightarrow> 'a World" where
  "selectLeftColumn x w =
    (let w1 = w\<lparr>profile := (profile w)\<lparr>SelectedColumn := SelectedColumn (profile w) - 1\<rparr>\<rparr>
     in if SelectedColumn (profile w1) <s 0
        then w1\<lparr>profile := (profile w1)\<lparr>SelectedColumn := TotalColumns x - 1\<rparr>\<rparr>
        else w1)"

definition selectRightColumn :: "('a, 'le) Collab \<Rightarrow> 'a World \<Rightarrow> 'a World" where
  "selectRightColumn x w =
    (let w1 = w\<lparr>profile := (profile w)\<lparr>SelectedColumn := SelectedColumn (profile w) + 1\<rparr>\<rparr>
     in if TotalColumns x - 1 <s SelectedColumn (profile w1)
        then w1\<lparr>profile := (profile w1)\<lparr>SelectedColumn := 0\<rparr>\<rparr>
        else w1)"

definition execute :: "('a, 'le) Collab \<Rightarrow> 'a World \<Rightarrow> 'a World" where
  "execute x w =
    (case Reorder x w of (ok, w1) \<Rightarrow> if ok then call (Draw [TheQuotes]) w1 else w1)"

definition done_editing :: "'a World \<Rightarrow> bool \<times> 'a World" where
  "done_editing w = (True, w\<lparr>profile := (profile w)\<lparr>SelectedColumn := - 1\<rparr>\<rparr>)"

text \<open>\<^verbatim>\<open>Handle\<close>: the deferred \<^verbatim>\<open>redrawHeader\<close> runs last, on every path.\<close>

definition ColumnEditor_Handle ::
  "('a, 'le) Collab \<Rightarrow> Event \<Rightarrow> 'a World \<Rightarrow> bool \<times> 'a World"
where
  "ColumnEditor_Handle x event w =
    (case (case Key event of
             KeyEsc \<Rightarrow> done_editing w
           | KeyEnter \<Rightarrow> (False, execute x w)
           | KeyArrowLeft \<Rightarrow> (False, selectLeftColumn x w)
           | KeyArrowRight \<Rightarrow> (False, selectRightColumn x w)
           | KeyOther \<Rightarrow> (False, w)) of
       (result, w1) \<Rightarrow> (result, redrawHeader x w1))"

section \<open>cmd/mop/main.go: the main loop\<close>

text \<open>
  The variables of \<^verbatim>\<open>mainLoop\<close>: the two editor pointers (\<open>None\<close> is \<^verbatim>\<open>nil\<close>), the two
  flags, and what is shared with the editors.
\<close>

record ('a, 'le) Loop =
  lineEditor :: "'le option"
  columnEditor :: "ColumnEditor option"
  showingHelp :: bool
  paused :: bool
  world :: "'a World"

text \<open>What one round of the \<^verbatim>\<open>select\<close> receives: an event from \<^verbatim>\<open>keyboardQueue\<close>, or a
  tick of one of the three tickers.\<close>

datatype Incoming = Keyboard Event | TimestampTick | QuotesTick | MarketTick

datatype Control = Continue | BreakLoop

text \<open>The first branch of \<^verbatim>\<open>case termbox.EventKey\<close>: no editor is open and help is not
  showing.\<close>

definition command_key ::
  "('a, 'le) Collab \<Rightarrow> Event \<Rightarrow> ('a, 'le) Loop \<Rightarrow> Control \<times> ('a, 'le) Loop"
where
  "command_key x event s =
    (if Key event = KeyEsc \<or> Ch event = rune CHR ''q'' \<or> Ch event = rune CHR ''Q'' then
       (BreakLoop, s)
     else if Ch event = rune CHR ''+'' \<or> Ch event = rune CHR ''-'' then
       (case Prompt x (NewLineEditor x (world s)) (Ch event) (world s) of
          (le, w) \<Rightarrow> (Continue, s\<lparr>lineEditor := Some le, world := w\<rparr>))
     else if Ch event = rune CHR ''f'' then
       (case Prompt x (NewLineEditor x (world s)) (Ch event) (world s) of
          (le, w) \<Rightarrow> (Continue, s\<lparr>lineEditor := Some le, world := w\<rparr>))
     else if Ch event = rune CHR ''F'' then
       (Continue, s\<lparr>world := SetFilter x [] (world s)\<rparr>)
     else if Ch event = rune CHR ''o'' \<or> Ch event = rune CHR ''O'' then
       (case NewColumnEditor x (world s) of
          (ce, w) \<Rightarrow> (Continue, s\<lparr>columnEditor := Some ce, world := w\<rparr>))
     else if Ch event = rune CHR ''g'' \<or> Ch event = rune CHR ''G'' then
       (case Regroup x (world s) of
          (ok, w) \<Rightarrow> (Continue, s\<lparr>world := (if ok then call (Draw [TheQuotes]) w else w)\<rparr>))
     else if Ch event = rune CHR ''p'' \<or> Ch event = rune CHR ''P'' then
       (Continue,
        s\<lparr>paused := \<not> paused s,
          world := call (Draw [TheTime]) (call (Pause (\<not> paused s)) (world s))\<rparr>)
     else if Ch event = rune CHR ''?'' \<or> Ch event = rune CHR ''h'' \<or> Ch event = rune CHR ''H''
     then
       (Continue,
        s\<lparr>showingHelp := True, world := call (Draw [TheHelp]) (call Clear (world s))\<rparr>)
     else (Continue, s))"

text \<open>\<^verbatim>\<open>case event := <-keyboardQueue\<close>.\<close>

definition keyboard ::
  "('a, 'le) Collab \<Rightarrow> Event \<Rightarrow> ('a, 'le) Loop \<Rightarrow> Control \<times> ('a, 'le) Loop"
where
  "keyboard x event s =
    (case Type event of
       EventKey \<Rightarrow>
         if lineEditor s = None \<and> columnEditor s = None \<and> \<not> showingHelp s then
           command_key x event s
         else if lineEditor s \<noteq> None then
           (case lineEditor s of
              Some le \<Rightarrow>
                (case LineEditor_Handle x le event (world s) of
                   (done, le1, w) \<Rightarrow>
                     (Continue,
                      s\<lparr>lineEditor := (if done then None else Some le1), world := w\<rparr>))
            | None \<Rightarrow> (Continue, s))
         else if columnEditor s \<noteq> None then
           (case ColumnEditor_Handle x event (world s) of
              (done, w) \<Rightarrow>
                (Continue,
                 s\<lparr>columnEditor := (if done then None else columnEditor s), world := w\<rparr>))
         else if showingHelp s then
           (Continue,
            s\<lparr>showingHelp := False,
              world := call (Draw [TheMarket, TheQuotes]) (call Clear (world s))\<rparr>)
         else (Continue, s)
     | EventResize \<Rightarrow>
         (Continue,
          s\<lparr>world :=
              (if \<not> showingHelp s
               then call (Draw [TheMarket, TheQuotes]) (call Resize (world s))
               else call (Draw [TheHelp]) (call Resize (world s)))\<rparr>)
     | _ \<Rightarrow> (Continue, s))"

text \<open>The three ticker cases draw the same way; each draws its own object.\<close>

definition tick :: "Drawable \<Rightarrow> ('a, 'le) Loop \<Rightarrow> Control \<times> ('a, 'le) Loop" where
  "tick what s =
    (if \<not> showingHelp s \<and> \<not> paused s
     then (Continue, s\<lparr>world := call (Draw [what]) (world s)\<rparr>)
     else (Continue, s))"

text \<open>One round of the loop: the \<^verbatim>\<open>select\<close>.\<close>

definition select_round ::
  "('a, 'le) Collab \<Rightarrow> Incoming \<Rightarrow> ('a, 'le) Loop \<Rightarrow> Control \<times> ('a, 'le) Loop"
where
  "select_round x incoming s =
    (case incoming of
       Keyboard event \<Rightarrow> keyboard x event s
     | TimestampTick \<Rightarrow> tick TheTime s
     | QuotesTick \<Rightarrow> tick TheQuotes s
     | MarketTick \<Rightarrow> tick TheMarket s)"

text \<open>
  \<^verbatim>\<open>mainLoop\<close> from the label \<^verbatim>\<open>loop\<close> on, over what the channels deliver.  The loop
  itself never ends unless it reaches \<^verbatim>\<open>break loop\<close>; run on a finite list of arrivals
  it answers \<open>Continue\<close> when it has consumed them all and waits for more.
\<close>

fun mainLoop ::
  "('a, 'le) Collab \<Rightarrow> Incoming list \<Rightarrow> ('a, 'le) Loop \<Rightarrow> Control \<times> ('a, 'le) Loop"
where
  "mainLoop x [] s = (Continue, s)"
| "mainLoop x (incoming # rest) s =
    (case select_round x incoming s of
       (BreakLoop, s1) \<Rightarrow> (BreakLoop, s1)
     | (Continue, s1) \<Rightarrow> mainLoop x rest s1)"

text \<open>The states of the loop before each arrival of a list, as long as the loop runs.\<close>

fun visited :: "('a, 'le) Collab \<Rightarrow> Incoming list \<Rightarrow> ('a, 'le) Loop \<Rightarrow> ('a, 'le) Loop list"
where
  "visited x [] s = []"
| "visited x (incoming # rest) s =
    s # (case select_round x incoming s of
           (BreakLoop, s1) \<Rightarrow> []
         | (Continue, s1) \<Rightarrow> visited x rest s1)"

definition modal :: "('a, 'le) Loop \<Rightarrow> bool" where
  "modal s = (lineEditor s \<noteq> None \<or> columnEditor s \<noteq> None)"

section \<open>pkg/model: fetching the quotes\<close>

text \<open>\<^verbatim>\<open>Market\<close>, with the one field that \<^verbatim>\<open>isReady\<close> reads.\<close>

record Market =
  IsClosed :: bool

record 'a Quotes =
  market :: Market
  Profile :: "'a Profile"
  Stocks :: "Stock list option"
  errors :: string

text \<open>
  A value of a decoded JSON object: a string, a number (\<^verbatim>\<open>float64\<close>, kept abstract as
  \<open>'f\<close>) or anything else (\<open>'o\<close>).
\<close>

datatype ('f, 'o) JValue = JString string | JFloat 'f | JOther 'o

text \<open>What the network gives for a URL: \<^verbatim>\<open>http.Get\<close> fails, or \<^verbatim>\<open>ioutil.ReadAll\<close> of
  the body fails (each with the message of its error), or the body.\<close>

datatype Response = GetError string | ReadError string | Body string

text \<open>
  The library calls of \<^verbatim>\<open>Fetch\<close> and \<^verbatim>\<open>parse2\<close>, as parameters: the network,
  \<^verbatim>\<open>json.Unmarshal\<close> into \<^verbatim>\<open>map[string]map[string][]map[string]interface{}\<close> (an error
  message, or the document; indexing a key that is missing gives the empty list),
  \<^verbatim>\<open>fmt.Sprintf("%v", v)\<close>, \<^verbatim>\<open>strconv.ParseFloat\<close> (\<open>None\<close> when it returns an error)
  and the comparison \<^verbatim>\<open>adv >= 0.0\<close>.  \<^verbatim>\<open>float2Str\<close> is a function of the sources, but
  it is floating-point division and formatting, so it is a parameter as well.
\<close>

record ('f, 'o) Lib =
  http_Get :: "string \<Rightarrow> Response"
  Unmarshal :: "string \<Rightarrow> string + (string \<Rightarrow> string \<Rightarrow> (string \<rightharpoonup> ('f, 'o) JValue) list)"
  float2Str :: "'f \<Rightarrow> string"
  Sprintf_v :: "'o \<Rightarrow> string"
  ParseFloat :: "string \<Rightarrow> 'f option"
  not_negative :: "'f \<Rightarrow> bool"

definition NewQuotes :: "Market \<Rightarrow> 'a Profile \<Rightarrow> 'a Quotes" where
  "NewQuotes mkt prof = \<lparr>market = mkt, Profile = prof, Stocks = None, errors = []\<rparr>"

definition isReady :: "'a Quotes \<Rightarrow> bool" where
  "isReady quotes =
    ((Stocks quotes = None \<or> \<not> IsClosed (market quotes))
     \<and> length (Tickers (Profile quotes)) > 0)"

definition Ok :: "'a Quotes \<Rightarrow> bool \<times> string" where
  "Ok quotes = (errors quotes = [], errors quotes)"

text \<open>The inner loop of \<^verbatim>\<open>parse2\<close> turns every value into a string; \<^verbatim>\<open>result[k]\<close> of a
  key that is missing is the empty string.\<close>

definition as_text :: "('f, 'o) Lib \<Rightarrow> ('f, 'o) JValue \<Rightarrow> string" where
  "as_text lib v =
    (case v of JString s \<Rightarrow> s | JFloat f \<Rightarrow> float2Str lib f | JOther x \<Rightarrow> Sprintf_v lib x)"

definition result_at :: "('f, 'o) Lib \<Rightarrow> (string \<rightharpoonup> ('f, 'o) JValue) \<Rightarrow> string \<Rightarrow> string" where
  "result_at lib raw k = (case raw k of None \<Rightarrow> [] | Some v \<Rightarrow> as_text lib v)"

text \<open>The body of the outer loop of \<^verbatim>\<open>parse2\<close>: one element of \<^verbatim>\<open>quotes.Stocks\<close>,
  which \<^verbatim>\<open>make\<close> created as the zero value.\<close>

definition stock_of_result :: "('f, 'o) Lib \<Rightarrow> (string \<rightharpoonup> ('f, 'o) JValue) \<Rightarrow> Stock" where
  "stock_of_result lib raw =
    (let stock =
       \<lparr>Ticker = result_at lib raw ''symbol'',
        LastTrade = result_at lib raw ''regularMarketPrice'',
        Change = result_at lib raw ''regularMarketChange'',
        ChangePct = result_at lib raw ''regularMarketChangePercent'',
        Open = result_at lib raw ''regularMarketOpen'',
        Low = result_at lib raw ''regularMarketDayLow'',
        High = result_at lib raw ''regularMarketDayHigh'',
        Low52 = result_at lib raw ''fiftyTwoWeekLow'',
        High52 = result_at lib raw ''fiftyTwoWeekHigh'',
        Volume = result_at lib raw ''regularMarketVolume'',
        AvgVolume = result_at lib raw ''averageDailyVolume10Day'',
        PeRatio = result_at lib raw ''trailingPE'',
        PeRatioX = result_at lib raw ''trailingPE'',
        Dividend = result_at lib raw ''trailingAnnualDividendRate'',
        Yield = result_at lib raw ''trailingAnnualDividendYield'',
        MarketCap = result_at lib raw ''marketCap'',
        MarketCapX = result_at lib raw ''marketCap'',
        Currency = result_at lib raw ''currency'',
        Advancing = False,
        PreOpen = result_at lib raw ''preMarketChangePercent'',
        AfterHours = result_at lib raw ''postMarketChangePercent''\<rparr>
     in case ParseFloat lib (Change stock) of
          Some adv \<Rightarrow> stock\<lparr>Advancing := not_negative lib adv\<rparr>
        | None \<Rightarrow> stock)"

text \<open>\<^verbatim>\<open>parse2\<close> works on the receiver in place: the result is the receiver after the
  call, with the error it returns (\<open>None\<close> is \<^verbatim>\<open>nil\<close>).\<close>

definition parse2 :: "('f, 'o) Lib \<Rightarrow> string \<Rightarrow> 'a Quotes \<Rightarrow> 'a Quotes \<times> string option" where
  "parse2 lib body quotes =
    (case Unmarshal lib body of
       Inl err \<Rightarrow> (quotes, Some err)
     | Inr d \<Rightarrow>
         (quotes\<lparr>Stocks := Some (map (stock_of_result lib) (d ''quoteResponse'' ''result''))\<rparr>,
          None))"

fun Join :: "string list \<Rightarrow> string \<Rightarrow> string" where
  "Join [] sep = []"
| "Join [a] sep = a"
| "Join (a # b # rest) sep = a @ sep @ Join (b # rest) sep"

definition quotesURLv7 :: "string \<Rightarrow> string" where
  "quotesURLv7 symbols = ''https://query1.finance.yahoo.com/v7/finance/quote?symbols='' @ symbols"

definition quotesURLv7QueryParts :: string where
  "quotesURLv7QueryParts =
    ''&range=1d&interval=5m&indicators=close&includeTimestamps=false''
    @ ''&includePrePost=false&corsDomain=finance.yahoo.com&.tsrc=finance''"

text \<open>The text that the deferred function stores after a panic:
  \<^verbatim>\<open>fmt.Sprintf("\n\n\n\nError fetching stock quotes...\n%s", err)\<close>.\<close>

definition fetch_error :: "string \<Rightarrow> string" where
  "fetch_error err =
    [CHR 0x0A, CHR 0x0A, CHR 0x0A, CHR 0x0A] @ ''Error fetching stock quotes...''
    @ [CHR 0x0A] @ err"

text \<open>
  \<^verbatim>\<open>Fetch\<close>.  The two \<^verbatim>\<open>panic(err)\<close> are recovered by the deferred function, which
  stores the text of the error; when nothing panicked it stores the empty string.  The
  two results of \<^verbatim>\<open>quotes.parse2(body)\<close> are not used.
\<close>

definition Fetch :: "('f, 'o) Lib \<Rightarrow> 'a Quotes \<Rightarrow> 'a Quotes" where
  "Fetch lib quotes =
    (if isReady quotes then
       (case http_Get lib
               (quotesURLv7 (Join (Tickers (Profile quotes)) '','') @ quotesURLv7QueryParts) of
          GetError err \<Rightarrow> quotes\<lparr>errors := fetch_error err\<rparr>
        | ReadError err \<Rightarrow> quotes\<lparr>errors := fetch_error err\<rparr>
        | Body body \<Rightarrow> (fst (parse2 lib body quotes))\<lparr>errors := []\<rparr>)
     else quotes)"

section \<open>Concrete inputs\<close>

text \<open>The zero value of \<^verbatim>\<open>Stock\<close>, and two records.\<close>

definition zero_Stock :: Stock where
  "zero_Stock =
    \<lparr>Ticker = [], LastTrade = [], Change = [], ChangePct = [], Open = [], Low = [],
     High = [], Low52 = [], High52 = [], Volume = [], AvgVolume = [], PeRatio = [],
     PeRatioX = [], Dividend = [], Yield = [], MarketCap = [], MarketCapX = [],
     Currency = [], Advancing = False, PreOpen = [], AfterHours = []\<rparr>"

definition stock_GOOG :: Stock where
  "stock_GOOG = zero_Stock\<lparr>Ticker := ''GOOG'', Change := ''12.50'', Advancing := True\<rparr>"

definition stock_BA :: Stock where
  "stock_BA = zero_Stock\<lparr>Ticker := ''BA'', Change := ''-3.10''\<rparr>"

text \<open>
  Expressions for the filter.  An expression that is one variable name evaluates to the
  binding of that name; an expression without any token has no value (\<^verbatim>\<open>nil\<close>, here the
  one value of the other dynamic types).  The helpers \<^verbatim>\<open>m\<close> and \<^verbatim>\<open>c\<close> are left
  uninterpreted in these examples.
\<close>

definition variable_expression :: "string \<Rightarrow> (string \<times> unit iface) list \<Rightarrow> string + unit iface"
where
  "variable_expression name values =
    (case map_of values name of
       Some v \<Rightarrow> Inr v
     | None \<Rightarrow> Inl (''No parameter '' @ name @ '' found.''))"

definition empty_expression :: "(string \<times> unit iface) list \<Rightarrow> string + unit iface" where
  "empty_expression values = Inr (Other ())"

definition number_of :: "string \<Rightarrow> unit iface" where
  "number_of s = Other ()"

definition untrimmed :: "string \<Rightarrow> string" where
  "untrimmed s = s"

definition profile_with ::
  "string \<Rightarrow> ((string \<times> unit iface) list \<Rightarrow> string + unit iface) \<Rightarrow> unit Profile"
where
  "profile_with text expression =
    \<lparr>Tickers = [''GOOG'', ''BA''], SortColumn = 0, SelectedColumn = - 1, Filter = text,
     FilterExpression = expression\<rparr>"

text \<open>
  Collaborators for the editors: a layout of fifteen columns, profile methods that
  succeed, and a line editor that collects the runes typed and is done on Enter and on
  Esc.
\<close>

definition plain_collab :: "(unit, nat list) Collab" where
  "plain_collab =
    \<lparr>TotalColumns = 15,
     Header = (\<lambda>p. ''Ticker Last Change''),
     Reorder = (\<lambda>w. (True, w)),
     Regroup = (\<lambda>w. (True, w)),
     SetFilter = (\<lambda>text w. w\<lparr>profile := (profile w)\<lparr>Filter := text\<rparr>\<rparr>),
     NewLineEditor = (\<lambda>w. []),
     Prompt = (\<lambda>le ch w. (le, w)),
     LineEditor_Handle =
       (\<lambda>le event w.
          (Key event = KeyEsc \<or> Key event = KeyEnter, le @ [Ch event], w))\<rparr>"

definition key_event :: "Key \<Rightarrow> Event" where
  "key_event k = \<lparr>Type = EventKey, Key = k, Ch = 0\<rparr>"

definition char_event :: "char \<Rightarrow> Event" where
  "char_event ch = \<lparr>Type = EventKey, Key = KeyOther, Ch = rune ch\<rparr>"

definition start_world :: "unit World" where
  "start_world =
    \<lparr>profile = profile_with [] empty_expression, trace = [Draw [TheMarket, TheQuotes]]\<rparr>"

definition start_Loop :: "(unit, nat list) Loop" where
  "start_Loop =
    \<lparr>lineEditor = None, columnEditor = None, showingHelp = False, paused = False,
     world = start_world\<rparr>"

text \<open>The loop after the key \<^verbatim>\<open>o\<close> (the column editor is open), after the key \<^verbatim>\<open>f\<close>
  (the line editor is open) and after the key \<^verbatim>\<open>p\<close> (paused).\<close>

definition editing_columns :: "(unit, nat list) Loop" where
  "editing_columns = snd (select_round plain_collab (Keyboard (char_event CHR ''o'')) start_Loop)"

definition editing_line :: "(unit, nat list) Loop" where
  "editing_line = snd (select_round plain_collab (Keyboard (char_event CHR ''f'')) start_Loop)"

definition pausing :: "(unit, nat list) Loop" where
  "pausing = snd (select_round plain_collab (Keyboard (char_event CHR ''p'')) start_Loop)"

text \<open>
  A fetch that gets a page which is not JSON: the request succeeds, the body is read, and
  \<^verbatim>\<open>json.Unmarshal\<close> rejects it.  The quotes had been fetched before, and the previous
  fetch had failed in the network.
\<close>

definition html_page :: string where
  "html_page = ''<html>Too Many Requests</html>''"

definition html_lib :: "(unit, unit) Lib" where
  "html_lib =
    \<lparr>http_Get = (\<lambda>url. Body html_page),
     Unmarshal =
       (\<lambda>body. if take 1 body = ''{'' then Inr (\<lambda>a b. [])
          else Inl (''invalid character '' @ take 1 body
                 @ '' looking for beginning of value'')),
     float2Str = (\<lambda>f. ''0.000''),
     Sprintf_v = (\<lambda>v. ''<nil>''),
     ParseFloat = (\<lambda>s. None),
     not_negative = (\<lambda>f. True)\<rparr>"

definition stale_quotes :: "unit Quotes" where
  "stale_quotes =
    \<lparr>market = \<lparr>IsClosed = False\<rparr>,
     Profile = profile_with [] empty_expression,
     Stocks = Some [stock_GOOG, stock_BA],
     errors = fetch_error ''dial tcp: i/o timeout''\<rparr>"

section \<open>Properties of the markup parser\<close>

subsection \<open>Tokenize reconstructs its input\<close>

lemma ordered_matches_mono:
  "ordered_matches lo n ms \<Longrightarrow> lo' \<le> lo \<Longrightarrow> ordered_matches lo' n ms"
  by (cases ms) auto

lemma FindAllStringIndex_from_ordered:
  "ordered_matches pos (pos + length s) (FindAllStringIndex_from re pos s)"
proof (induction re pos s rule: FindAllStringIndex_from.induct)
  case (1 re pos)
  show ?case by simp
next
  case (2 re pos c cs)
  show ?case
  proof (cases "match_here re (c # cs)")
    case None
    from 2(1) [OF None] have "ordered_matches (pos + 1) (pos + 1 + length cs)
      (FindAllStringIndex_from re (pos + 1) cs)" .
    then have "ordered_matches pos (pos + length (c # cs))
      (FindAllStringIndex_from re (pos + 1) cs)"
      by (auto intro: ordered_matches_mono)
    with None show ?thesis by simp
  next
    case (Some n)
    from match_here_bounds [OF Some] have n: "0 < n" "n \<le> length (c # cs)" by auto
    from 2(2) [OF Some] have "ordered_matches (pos + n) (pos + n + length (drop n (c # cs)))
      (FindAllStringIndex_from re (pos + n) (drop n (c # cs)))" .
    moreover from n have "pos + n + length (drop n (c # cs)) = pos + length (c # cs)"
      by simp
    ultimately show ?thesis using Some n by simp
  qed
qed

lemma take_drop_join:
  "h \<le> a \<Longrightarrow> a \<le> b \<Longrightarrow>
    take (a - h) (drop h s) @ take (b - a) (drop a s) = take (b - h) (drop h s)"
proof -
  assume le: "h \<le> a" "a \<le> b"
  have "take ((a - h) + (b - a)) (drop h s)
      = take (a - h) (drop h s) @ take (b - a) (drop (a - h) (drop h s))"
    by (rule take_add)
  with le show ?thesis by simp
qed

lemma Tokenize_loop_concat:
  "ordered_matches h (length str) ms \<Longrightarrow> h \<le> length str \<Longrightarrow>
    \<exists>h' t' acc'. Tokenize_loop str ms h t acc = Some (h', t', acc')
      \<and> concat acc' = concat acc @ take (h' - h) (drop h str)
      \<and> h \<le> h' \<and> h' \<le> length str
      \<and> (if ms = [] then h' = h \<and> t' = t else t' < h')"
proof (induction ms arbitrary: h t acc)
  case Nil
  then show ?case by simp
next
  case (Cons mt ms)
  obtain a b where mt: "mt = (a, b)" by (cases mt)
  from Cons.prems mt have ord: "h \<le> a" "a < b" "b \<le> length str"
    "ordered_matches b (length str) ms" by auto
  from ord have ale: "a \<le> length str" "h \<le> b" by arith+
  define lit where "lit = take (a - h) (drop h str)"
  define tag where "tag = take (b - a) (drop a str)"
  define acc1 where "acc1 = (if h \<noteq> 0 \<or> a \<noteq> 0 then acc @ [lit] else acc)"
  have s1: "substr str h a = Some lit" using ord ale by (simp add: substr_def lit_def)
  have s2: "substr str a b = Some tag" using ord ale by (simp add: substr_def tag_def)
  have step: "Tokenize_loop str (mt # ms) h t acc = Tokenize_loop str ms b a (acc1 @ [tag])"
    using ord s1 s2 by (auto simp: mt acc1_def)
  have c1: "concat acc1 = concat acc @ lit"
    using ord by (auto simp: acc1_def lit_def)
  from Cons.IH [OF ord(4) ord(3), of a "acc1 @ [tag]"]
  obtain h' t' acc' where r: "Tokenize_loop str ms b a (acc1 @ [tag]) = Some (h', t', acc')"
    "concat acc' = concat (acc1 @ [tag]) @ take (h' - b) (drop b str)"
    "b \<le> h'" "h' \<le> length str" "if ms = [] then h' = b \<and> t' = a else t' < h'"
    by blast
  have "lit @ tag = take (b - h) (drop h str)"
    unfolding lit_def tag_def using ord by (intro take_drop_join) auto
  moreover have "take (b - h) (drop h str) @ take (h' - b) (drop b str) = take (h' - h) (drop h str)"
    using ord r(3) by (intro take_drop_join) auto
  ultimately have "concat acc' = concat acc @ take (h' - h) (drop h str)"
    using r(2) c1 by simp
  moreover have "t' < h'" using r(5) ord by (auto split: if_splits)
  ultimately show ?case using step r ord by auto
qed

text \<open>
  Claim C1.  For every input string, \<open>Tokenize\<close> returns (no slice expression of
  the loop goes out of range) and the tokens it returns, concatenated in order, are the
  input string: nothing is dropped, duplicated or reordered.
\<close>

theorem Tokenize_concat_roundtrip:
  "\<exists>tokens. Tokenize (NewMarkup color) str = Some tokens \<and> concat tokens = str"
proof -
  let ?ms = "FindAllStringIndex (regex (NewMarkup color)) str"
  have "ordered_matches 0 (length str) ?ms"
    using FindAllStringIndex_from_ordered [of 0 str] by (simp add: FindAllStringIndex_def)
  from Tokenize_loop_concat [OF this, of 0 "[]"]
  obtain h' t' acc' where r: "Tokenize_loop str ?ms 0 0 [] = Some (h', t', acc')"
    "concat acc' = take h' str" "h' \<le> length str"
    "if ?ms = [] then h' = 0 \<and> t' = 0 else t' < h'"
    by auto
  show ?thesis
  proof (cases "h' \<noteq> length str \<and> t' \<noteq> length str")
    case True
    then have "Tokenize (NewMarkup color) str = Some (acc' @ [drop h' str])"
      using r by (simp add: Tokenize_def substr_def)
    then show ?thesis using r(2) by simp
  next
    case False
    have "h' = length str"
    proof (rule ccontr)
      assume ne: "h' \<noteq> length str"
      with False have "t' = length str" by simp
      with r(3,4) ne show False by (auto split: if_splits)
    qed
    then have "Tokenize (NewMarkup color) str = Some acc'" "concat acc' = str"
      using r by (simp_all add: Tokenize_def)
    then show ?thesis by simp
  qed
qed

subsection \<open>The order of the alternatives does not matter\<close>

text \<open>
  \<^verbatim>\<open>supportedTags\<close> ranges over a Go map, so the alternatives of the pattern come in an
  order that changes from run to run.  A tag name holds no \<^verbatim>\<open>>\<close>, so a match of any
  alternative ends at the first \<^verbatim>\<open>>\<close>: at one position all alternatives that match give
  the same match, and the matches found depend on the set of tag names only.
\<close>

lemma match_tag_length:
  assumes "match_tag t s = Some n" and "CHR ''>'' \<notin> set t"
  shows "n = Suc (length (takeWhile (\<lambda>c. c \<noteq> CHR ''>'') s))"
proof -
  from assms(1) obtain r where s: "s = CHR ''<'' # r"
    by (cases s) (auto simp: match_tag_def split: if_splits)
  from assms(2) have t: "\<forall>c\<in>set t. c \<noteq> CHR ''>''" by auto
  show ?thesis
  proof (cases "prefix (CHR ''/'' # t @ ''>'') r")
    case True
    then obtain rest where "r = (CHR ''/'' # t) @ CHR ''>'' # rest"
      by (auto simp: prefix_def)
    moreover from True assms(1) s have "n = length t + 3" by (simp add: match_tag_def)
    ultimately show ?thesis using t s by (simp add: takeWhile_append2)
  next
    case False
    with assms(1) s have p: "prefix (t @ ''>'') r" and n: "n = length t + 2"
      by (auto simp: match_tag_def split: if_splits)
    from p obtain rest where "r = t @ CHR ''>'' # rest"
      by (auto simp: prefix_def)
    with n t s show ?thesis by (simp add: takeWhile_append2)
  qed
qed

lemma match_here_by_set:
  assumes "\<forall>t\<in>set ts. CHR ''>'' \<notin> set t"
  shows "match_here ts s =
    (if \<exists>t\<in>set ts. match_tag t s \<noteq> None
     then Some (Suc (length (takeWhile (\<lambda>c. c \<noteq> CHR ''>'') s))) else None)"
  using assms
proof (induction ts)
  case Nil
  show ?case by simp
next
  case (Cons t ts)
  show ?case
  proof (cases "match_tag t s")
    case None
    with Cons show ?thesis by simp
  next
    case (Some n)
    with Cons.prems match_tag_length [of t s n] show ?thesis by simp
  qed
qed

lemma FindAllStringIndex_from_cong:
  "(\<And>s. match_here ts s = match_here ts' s) \<Longrightarrow>
    FindAllStringIndex_from ts pos s = FindAllStringIndex_from ts' pos s"
proof (induction ts pos s rule: FindAllStringIndex_from.induct)
  case (1 re pos)
  show ?case by simp
next
  case (2 re pos c cs)
  show ?case
  proof (cases "match_here re (c # cs)")
    case None
    then have "match_here ts' (c # cs) = None" using 2(3) [of "c # cs"] by simp
    with None 2(1) [OF None 2(3)] show ?thesis by simp
  next
    case (Some n)
    then have "match_here ts' (c # cs) = Some n" using 2(3) [of "c # cs"] by simp
    with Some 2(2) [OF Some 2(3)] show ?thesis by simp
  qed
qed

lemma FindAllStringIndex_from_by_set:
  assumes "set ts = set ts'" and "\<forall>t\<in>set ts. CHR ''>'' \<notin> set t"
  shows "FindAllStringIndex_from ts pos s = FindAllStringIndex_from ts' pos s"
  using assms by (intro FindAllStringIndex_from_cong) (simp add: match_here_by_set)

lemma Tokenize_any_order:
  assumes "set re = set (regex (NewMarkup color))"
  shows "Tokenize ((NewMarkup color)\<lparr>regex := re\<rparr>) str = Tokenize (NewMarkup color) str"
proof -
  have "\<forall>t\<in>set (regex (NewMarkup color)). CHR ''>'' \<notin> set t"
    by (simp add: NewMarkup_def Let_def supportedTags_def)
  with assms have "FindAllStringIndex_from re 0 str
      = FindAllStringIndex_from (regex (NewMarkup color)) 0 str"
    by (intro FindAllStringIndex_from_by_set) auto
  then show ?thesis by (simp add: Tokenize_def FindAllStringIndex_def)
qed

subsection \<open>Tags that are not registered\<close>

text \<open>
  Claim C2.  The claim expects three tokens for \<^verbatim>\<open><green>OK</>\<close> and a green
  foreground after the first.  \<^verbatim>\<open>NewMarkup\<close> registers \<^verbatim>\<open>/\<close>, \<^verbatim>\<open>base\<close>,
  \<^verbatim>\<open>highlight\<close>, \<^verbatim>\<open>market\<close>, \<^verbatim>\<open>right\<close>, \<^verbatim>\<open>b\<close>, \<^verbatim>\<open>u\<close> and \<^verbatim>\<open>r\<close> only, so
  the pattern does not match \<^verbatim>\<open><green>\<close>: \<open>Tokenize\<close> returns two tokens, the first
  being \<^verbatim>\<open><green>OK\<close>, and \<open>IsTag\<close> on \<^verbatim>\<open><green>\<close> answers true and leaves the
  state as it was.  Only the last part of the claim holds: \<^verbatim>\<open></>\<close> sets the foreground
  to the default.
\<close>

theorem Tokenize_green_not_split:
  "Tokenize (NewMarkup color) ''<green>OK</>'' = Some [''<green>OK'', ''</>'']
   \<and> IsTag (render_state color fg bg ra) ''<green>'' = (True, render_state color fg bg ra)
   \<and> IsTag (render_state color fg bg ra) ''</>''
       = (True, render_state color ColorDefault bg ra)"
  by (simp add: Tokenize_def NewMarkup_def Let_def supportedTags_def FindAllStringIndex_def
      match_tag_def substr_def IsTag_def probeForTag_def extractTagName_def process_def
      render_state_def)
    (simp add: termbox_defs)

subsection \<open>Attributes and colours\<close>

lemma terminalColor_at_le: "terminalColor_at name \<le> 16"
proof (cases "map_of terminalColor name")
  case None
  then show ?thesis by (simp add: terminalColor_at_def)
next
  case (Some a)
  then have "(name, a) \<in> set terminalColor" by (rule map_of_SomeD)
  then have "a \<le> 16" by (auto simp: terminalColor_def termbox_defs)
  with Some show ?thesis by (simp add: terminalColor_at_def)
qed

lemma terminalColor_at_not_attr: "\<not> AttrBold \<le> terminalColor_at name"
proof
  assume "AttrBold \<le> terminalColor_at name"
  then have "AttrBold \<le> (16 :: Attribute)"
    using terminalColor_at_le [of name] by (rule order_trans)
  then show False by (simp add: AttrBold_def)
qed

lemma bit_AttrBold: "bit AttrBold n \<longleftrightarrow> n = 9"
  unfolding AttrBold_def by (auto simp: bit_push_bit_iff bit_1_iff simp del: push_bit_of_1)

lemma bit_AttrUnderline: "bit AttrUnderline n \<longleftrightarrow> n = 13"
  unfolding AttrUnderline_def by (auto simp: bit_push_bit_iff bit_1_iff simp del: push_bit_of_1)

lemma Foreground_render_state [simp]: "Foreground (render_state color fg bg ra) = fg"
  and Background_render_state [simp]: "Background (render_state color fg bg ra) = bg"
  and RightAligned_render_state [simp]: "RightAligned (render_state color fg bg ra) = ra"
  by (simp_all add: render_state_def)

lemma IsTag_open_b:
  "IsTag (render_state color fg bg ra) ''<b>'' = (True, render_state color (fg OR AttrBold) bg ra)"
  by (simp add: IsTag_def probeForTag_def extractTagName_def process_def render_state_def
      NewMarkup_def Let_def)

lemma IsTag_open_u:
  "IsTag (render_state color fg bg ra) ''<u>''
    = (True, render_state color (fg OR AttrUnderline) bg ra)"
  by (simp add: IsTag_def probeForTag_def extractTagName_def process_def render_state_def
      NewMarkup_def Let_def termbox_defs)

lemma IsTag_close_b:
  "IsTag (render_state color fg bg ra) ''</b>''
    = (True, render_state color (fg AND NOT AttrBold) bg ra)"
  by (simp add: IsTag_def probeForTag_def extractTagName_def process_def render_state_def
      NewMarkup_def Let_def)

lemma layered_bits:
  fixes fg :: Attribute
  defines "w \<equiv> ((fg OR AttrBold) OR AttrUnderline) AND NOT AttrBold"
  shows "w AND AttrUnderline = AttrUnderline"
    and "w AND AttrBold = 0"
    and "w AND NOT (AttrBold OR AttrUnderline) = fg AND NOT (AttrBold OR AttrUnderline)"
  unfolding w_def
  by (rule bit_word_eqI; auto simp: bit_simps bit_AttrBold bit_AttrUnderline)+

text \<open>
  Claim C8.  From any render state (any foreground word \<open>fg\<close>, colour and attribute
  bits alike), the tokens \<^verbatim>\<open><b>\<close>, \<^verbatim>\<open><u>\<close>, \<^verbatim>\<open></b>\<close> in this order are each
  accepted as a tag and leave a foreground word whose underline bit is set, whose bold bit
  is clear and whose other bits (the colour and the other attributes) are those of \<open>fg\<close>;
  background and alignment are untouched.
\<close>

theorem bold_underline_unbold:
  "let m0 = render_state color fg bg ra;
       r1 = IsTag m0 ''<b>'';
       r2 = IsTag (snd r1) ''<u>'';
       r3 = IsTag (snd r2) ''</b>'';
       w = Foreground (snd r3)
   in fst r1 \<and> fst r2 \<and> fst r3
      \<and> w AND AttrUnderline = AttrUnderline
      \<and> w AND AttrBold = 0
      \<and> w AND NOT (AttrBold OR AttrUnderline) = fg AND NOT (AttrBold OR AttrUnderline)
      \<and> Background (snd r3) = bg \<and> RightAligned (snd r3) = ra"
  using layered_bits [of fg]
  by (simp add: Let_def IsTag_open_b IsTag_open_u IsTag_close_b)

text \<open>
  Claim C10.  From any render state, whatever attribute bits the foreground word carries,
  the closing form of each colour tag (\<^verbatim>\<open></base>\<close>, \<^verbatim>\<open></highlight>\<close>, \<^verbatim>\<open></market>\<close>) and
  the universal close \<^verbatim>\<open></>\<close> assign the default colour to the whole foreground word:
  no attribute bit survives.  This holds for every colour configuration, also one that
  names no known colour.
\<close>

theorem color_close_clears_attributes:
  "IsTag (render_state color fg bg ra) ''</>'' = (True, render_state color ColorDefault bg ra)
   \<and> IsTag (render_state color fg bg ra) ''</base>''
       = (True, render_state color ColorDefault bg ra)
   \<and> IsTag (render_state color fg bg ra) ''</highlight>''
       = (True, render_state color ColorDefault bg ra)
   \<and> IsTag (render_state color fg bg ra) ''</market>''
       = (True, render_state color ColorDefault bg ra)
   \<and> (\<forall>n. \<not> bit (Foreground (render_state color ColorDefault bg ra)) n)"
  by (simp add: IsTag_def probeForTag_def extractTagName_def process_def render_state_def
      NewMarkup_def Let_def terminalColor_at_not_attr)
    (simp add: termbox_defs)

section \<open>Properties of the filter\<close>

lemma Apply_loop_Inr_iff:
  "Apply_loop T m c p stocks acc = Inr out \<longleftrightarrow>
     (\<forall>s\<in>set stocks. yields_boolean (FilterExpression p (filter_values T m c s)))
     \<and> out = acc @ filter (\<lambda>s. FilterExpression p (filter_values T m c s) = Inr (Bool True)) stocks"
proof (induction stocks arbitrary: acc)
  case Nil
  show ?case by auto
next
  case (Cons s stocks)
  show ?case
  proof (cases "FilterExpression p (filter_values T m c s)")
    case (Inl err)
    then show ?thesis by (simp add: yields_boolean_def)
  next
    case (Inr v)
    then show ?thesis
      by (cases v) (auto simp: yields_boolean_def Cons.IH)
  qed
qed

text \<open>
  Claim C3.  When the collection holds a record on which \<^verbatim>\<open>Evaluate\<close> returns an error
  or a value that is not a boolean, \<open>Apply\<close> panics: it returns no collection at all,
  whatever the other records evaluate to.
\<close>

theorem Apply_panics_on_bad_evaluation:
  assumes "stock \<in> set stocks"
    and "\<not> yields_boolean (FilterExpression p (filter_values T m c stock))"
  shows "\<exists>e. Apply T m c p stocks = Inl e"
proof (cases "Apply T m c p stocks")
  case (Inl e)
  then show ?thesis by blast
next
  case (Inr out)
  then have "\<forall>s\<in>set stocks. yields_boolean (FilterExpression p (filter_values T m c s))"
    unfolding Apply_def Apply_loop_Inr_iff by simp
  with assms show ?thesis by blast
qed

theorem Apply_panics_on_bad_evaluation_witness:
  "stock_BA \<in> set [stock_GOOG, stock_BA]
   \<and> \<not> yields_boolean
       (FilterExpression (profile_with ''ticker'' (variable_expression ''ticker''))
         (filter_values untrimmed number_of number_of stock_BA))
   \<and> (\<exists>e. Apply untrimmed number_of number_of
          (profile_with ''ticker'' (variable_expression ''ticker''))
          [stock_GOOG, stock_BA] = Inl e)"
proof -
  have a: "stock_BA \<in> set [stock_GOOG, stock_BA]" by simp
  have b: "\<not> yields_boolean
       (FilterExpression (profile_with ''ticker'' (variable_expression ''ticker''))
         (filter_values untrimmed number_of number_of stock_BA))"
    by (simp add: yields_boolean_def profile_with_def variable_expression_def
        filter_values_def)
  from a b Apply_panics_on_bad_evaluation [OF a b] show ?thesis by blast
qed




section \<open>Properties of the column editor\<close>

lemma sint_pred: "1 \<le>s (n :: 64 word) \<Longrightarrow> n - 1 <s n"
proof -
  assume "1 \<le>s n"
  then have pos: "1 \<le> sint n" by (simp add: word_sle_eq)
  have "sint n < 2 ^ 63" using sint_lt [of n] by simp
  with pos have "sint (n - 1) = sint n - 1"
    by (simp add: sint_word_ariths signed_take_bit_int_eq_self)
  then show ?thesis by (simp add: word_sless_alt)
qed

lemma selectLeftColumn_at_0:
  "SelectedColumn (profile w) = 0 \<Longrightarrow>
    SelectedColumn (profile (selectLeftColumn x w)) = TotalColumns x - 1"
  by (simp add: selectLeftColumn_def Let_def word_sless_alt)

lemma selectRightColumn_at_last:
  "1 \<le>s TotalColumns x \<Longrightarrow> SelectedColumn (profile w) = TotalColumns x - 1 \<Longrightarrow>
    SelectedColumn (profile (selectRightColumn x w)) = 0"
  by (simp add: selectRightColumn_def Let_def sint_pred)

lemma SortColumn_select:
  "SortColumn (profile (selectLeftColumn x w)) = SortColumn (profile w)"
  "SortColumn (profile (selectRightColumn x w)) = SortColumn (profile w)"
  by (simp_all add: selectLeftColumn_def selectRightColumn_def Let_def)

lemma profile_redrawHeader: "profile (redrawHeader x w) = profile w"
  by (simp add: redrawHeader_def call_def)

lemma Handle_arrows:
  "Key event = KeyArrowLeft \<Longrightarrow>
     ColumnEditor_Handle x event w = (False, redrawHeader x (selectLeftColumn x w))"
  "Key event = KeyArrowRight \<Longrightarrow>
     ColumnEditor_Handle x event w = (False, redrawHeader x (selectRightColumn x w))"
  by (simp_all add: ColumnEditor_Handle_def)

text \<open>
  Claim C7.  With a column count \<open>n \<ge> 1\<close> (as a signed number): from the highlighted
  column 0, \<open>selectLeftColumn\<close> goes to \<open>n - 1\<close>; from \<open>n - 1\<close>, \<open>selectRightColumn\<close>
  goes to 0; and neither of them, nor \<open>Handle\<close> on the two arrow keys, which calls them,
  changes the sort column.
\<close>

theorem column_selection_wraps:
  assumes "1 \<le>s TotalColumns x"
  shows "(SelectedColumn (profile w) = 0 \<longrightarrow>
            SelectedColumn (profile (selectLeftColumn x w)) = TotalColumns x - 1)
       \<and> (SelectedColumn (profile w) = TotalColumns x - 1 \<longrightarrow>
            SelectedColumn (profile (selectRightColumn x w)) = 0)
       \<and> SortColumn (profile (selectLeftColumn x w)) = SortColumn (profile w)
       \<and> SortColumn (profile (selectRightColumn x w)) = SortColumn (profile w)
       \<and> (Key event = KeyArrowLeft \<or> Key event = KeyArrowRight \<longrightarrow>
            SortColumn (profile (snd (ColumnEditor_Handle x event w))) = SortColumn (profile w))"
  using assms
  by (auto simp: selectLeftColumn_at_0 selectRightColumn_at_last SortColumn_select
      Handle_arrows profile_redrawHeader)

theorem column_selection_wraps_witness:
  "1 \<le>s TotalColumns plain_collab
   \<and> SelectedColumn (profile (start_world\<lparr>profile := (profile start_world)\<lparr>SelectedColumn := 0\<rparr>\<rparr>)) = 0
   \<and> SelectedColumn (profile (selectLeftColumn plain_collab
        (start_world\<lparr>profile := (profile start_world)\<lparr>SelectedColumn := 0\<rparr>\<rparr>))) = 14
   \<and> SelectedColumn (profile (start_world\<lparr>profile := (profile start_world)\<lparr>SelectedColumn := 14\<rparr>\<rparr>))
       = TotalColumns plain_collab - 1
   \<and> SelectedColumn (profile (selectRightColumn plain_collab
        (start_world\<lparr>profile := (profile start_world)\<lparr>SelectedColumn := 14\<rparr>\<rparr>))) = 0
   \<and> SortColumn (profile (snd (ColumnEditor_Handle plain_collab (key_event KeyArrowLeft)
        (start_world\<lparr>profile := (profile start_world)\<lparr>SelectedColumn := 0\<rparr>\<rparr>)))) = 0"
proof -
  have n: "1 \<le>s TotalColumns plain_collab"
    by (simp add: plain_collab_def word_sle_eq)
  have k: "Key (key_event KeyArrowLeft) = KeyArrowLeft"
    by (simp add: key_event_def)
  from n k
    column_selection_wraps [OF n,
      of "start_world\<lparr>profile := (profile start_world)\<lparr>SelectedColumn := 0\<rparr>\<rparr>"
         "key_event KeyArrowLeft"]
    column_selection_wraps [OF n,
      of "start_world\<lparr>profile := (profile start_world)\<lparr>SelectedColumn := 14\<rparr>\<rparr>"
         "key_event KeyArrowLeft"]
  show ?thesis
    by (simp add: plain_collab_def start_world_def profile_with_def)
qed

section \<open>Properties of the main loop\<close>

lemma keyboard_modal:
  "modal s \<Longrightarrow> Type event = EventKey \<Longrightarrow>
    keyboard x event s =
      (case lineEditor s of
         Some le \<Rightarrow>
           (case LineEditor_Handle x le event (world s) of
              (done, le1, w) \<Rightarrow>
                (Continue, s\<lparr>lineEditor := (if done then None else Some le1), world := w\<rparr>))
       | None \<Rightarrow>
           (case ColumnEditor_Handle x event (world s) of
              (done, w) \<Rightarrow>
                (Continue,
                 s\<lparr>columnEditor := (if done then None else columnEditor s), world := w\<rparr>)))"
  by (auto simp: modal_def keyboard_def split: option.splits prod.splits)

lemma select_round_modal_continues: "modal s \<Longrightarrow> fst (select_round x incoming s) = Continue"
proof (cases incoming)
  case (Keyboard event)
  assume "modal s"
  then show ?thesis unfolding Keyboard
    by (cases "Type event")
      (auto simp: select_round_def keyboard_def modal_def split: option.splits prod.splits)
qed (simp_all add: select_round_def tick_def)

lemma mainLoop_modal_continues:
  "\<forall>t\<in>set (visited x arrivals s). modal t \<Longrightarrow> fst (mainLoop x arrivals s) = Continue"
proof (induction arrivals arbitrary: s)
  case Nil
  show ?case by simp
next
  case (Cons incoming rest)
  from Cons.prems have "modal s" by simp
  then have c: "fst (select_round x incoming s) = Continue"
    by (rule select_round_modal_continues)
  obtain s1 where s1: "select_round x incoming s = (Continue, s1)"
    using c by (cases "select_round x incoming s") auto
  with Cons.prems have "\<forall>t\<in>set (visited x rest s1). modal t" by simp
  then have "fst (mainLoop x rest s1) = Continue" by (rule Cons.IH)
  with s1 show ?case by simp
qed

text \<open>
  Claim C5.  While an editor is open (\<open>modal\<close>), a key event does one thing only: it is
  handed to \<open>Handle\<close> of the line editor if that one is open, of the column editor
  otherwise; the state of the loop changes by what \<open>Handle\<close> did and by the editor
  pointer, which becomes \<^verbatim>\<open>nil\<close> exactly when \<open>Handle\<close> reports done.  No arrival
  breaks the loop in such a state, so over any list of arrivals the loop is still running
  as long as every state it went through had an editor open.
\<close>

theorem modal_editor_owns_keys:
  "(modal s \<and> Type event = EventKey \<longrightarrow>
      select_round x (Keyboard event) s =
        (case lineEditor s of
           Some le \<Rightarrow>
             (case LineEditor_Handle x le event (world s) of
                (done, le1, w) \<Rightarrow>
                  (Continue, s\<lparr>lineEditor := (if done then None else Some le1), world := w\<rparr>))
         | None \<Rightarrow>
             (case ColumnEditor_Handle x event (world s) of
                (done, w) \<Rightarrow>
                  (Continue,
                   s\<lparr>columnEditor := (if done then None else columnEditor s), world := w\<rparr>))))
   \<and> (modal s \<longrightarrow> fst (select_round x incoming s) = Continue)
   \<and> ((\<forall>t\<in>set (visited x arrivals s). modal t) \<longrightarrow> fst (mainLoop x arrivals s) = Continue)"
  by (simp add: select_round_def keyboard_modal select_round_modal_continues [unfolded select_round_def]
      mainLoop_modal_continues)

lemma editing_columns_eq:
  "editing_columns =
    start_Loop\<lparr>columnEditor := Some ColumnEditor,
      world := start_world
        \<lparr>profile := (profile start_world)\<lparr>SelectedColumn := 0\<rparr>,
         trace := [Draw [TheMarket, TheQuotes], DrawLine 0 4 ''Ticker Last Change'', Flush]\<rparr>\<rparr>"
  by (simp add: editing_columns_def select_round_def keyboard_def command_key_def
      char_event_def rune_def start_Loop_def NewColumnEditor_def selectCurrentColumn_def
      redrawHeader_def call_def plain_collab_def start_world_def profile_with_def)

lemma editing_line_eq: "editing_line = start_Loop\<lparr>lineEditor := Some []\<rparr>"
  by (simp add: editing_line_def select_round_def keyboard_def command_key_def
      char_event_def rune_def start_Loop_def plain_collab_def)

theorem modal_editor_owns_keys_witness:
  "modal editing_columns
   \<and> Type (char_event CHR ''q'') = EventKey
   \<and> select_round plain_collab (Keyboard (char_event CHR ''q'')) editing_columns
       = (Continue,
          editing_columns\<lparr>world :=
            snd (ColumnEditor_Handle plain_collab (char_event CHR ''q'') (world editing_columns))\<rparr>)
   \<and> list_all modal (visited plain_collab
          [Keyboard (char_event CHR ''q''), Keyboard (char_event CHR ''Q''),
           Keyboard (key_event KeyEsc)] editing_columns)
   \<and> fst (mainLoop plain_collab
          [Keyboard (char_event CHR ''q''), Keyboard (char_event CHR ''Q''),
           Keyboard (key_event KeyEsc)] editing_columns) = Continue
   \<and> fst (mainLoop plain_collab
          [Keyboard (char_event CHR ''q''), Keyboard (char_event CHR ''Q''),
           Keyboard (key_event KeyEsc), Keyboard (char_event CHR ''q'')] editing_columns)
       = BreakLoop
   \<and> modal editing_line
   \<and> select_round plain_collab (Keyboard (char_event CHR ''q'')) editing_line
       = (Continue, editing_line\<lparr>lineEditor := Some [rune CHR ''q'']\<rparr>)"
proof -
  let ?keys = "[Keyboard (char_event CHR ''q''), Keyboard (char_event CHR ''Q''),
           Keyboard (key_event KeyEsc)]"
  have a: "modal editing_columns"
    by (simp add: modal_def editing_columns_eq)
  have b: "Type (char_event CHR ''q'') = EventKey"
    by (simp add: char_event_def)
  have c: "\<forall>t\<in>set (visited plain_collab ?keys editing_columns). modal t"
    by (simp add: editing_columns_eq modal_def select_round_def keyboard_def
        ColumnEditor_Handle_def char_event_def key_event_def redrawHeader_def call_def
        done_editing_def start_Loop_def)
  have d: "fst (mainLoop plain_collab
          [Keyboard (char_event CHR ''q''), Keyboard (char_event CHR ''Q''),
           Keyboard (key_event KeyEsc), Keyboard (char_event CHR ''q'')] editing_columns)
       = BreakLoop"
    by (simp add: editing_columns_eq modal_def select_round_def keyboard_def
        ColumnEditor_Handle_def char_event_def key_event_def redrawHeader_def call_def
        done_editing_def start_Loop_def command_key_def)
  have e: "ColumnEditor_Handle plain_collab (char_event CHR ''q'') (world editing_columns)
      = (False, redrawHeader plain_collab (world editing_columns))"
    by (simp add: ColumnEditor_Handle_def char_event_def)
  have f: "lineEditor editing_columns = None"
    by (simp add: editing_columns_eq start_Loop_def)
  note owns = modal_editor_owns_keys [of editing_columns "char_event CHR ''q''" plain_collab
      "Keyboard (char_event CHR ''q'')" ?keys]
  from owns [THEN conjunct1] a b
  have g: "select_round plain_collab (Keyboard (char_event CHR ''q'')) editing_columns
       = (Continue,
          editing_columns\<lparr>world :=
            snd (ColumnEditor_Handle plain_collab (char_event CHR ''q'') (world editing_columns))\<rparr>)"
    by (simp add: e f)
  from owns [THEN conjunct2, THEN conjunct2] c
  have h: "fst (mainLoop plain_collab ?keys editing_columns) = Continue"
    by blast
  from c have c': "list_all modal (visited plain_collab ?keys editing_columns)"
    unfolding list_all_iff .
  have i: "modal editing_line"
    by (simp add: modal_def editing_line_eq)
  from modal_editor_owns_keys [of editing_line "char_event CHR ''q''" plain_collab,
      THEN conjunct1] i b
  have j: "select_round plain_collab (Keyboard (char_event CHR ''q'')) editing_line
       = (Continue, editing_line\<lparr>lineEditor := Some [rune CHR ''q'']\<rparr>)"
    by (simp add: editing_line_eq start_Loop_def plain_collab_def char_event_def)
  from a b g c' h d i j show ?thesis by blast
qed

text \<open>
  Claim C6.  In a state where help is showing or the pause flag is set, each of the three
  ticks leaves the loop as it was: no call at all, so no redraw.  In a state where neither
  holds, each tick makes one call, \<^verbatim>\<open>screen.Draw\<close> of its own object.  (The periods of the
  tickers are not part of the model; a tick is an arrival.)
\<close>

theorem ticks_gated_by_help_and_pause:
  "(showingHelp s \<or> paused s \<longrightarrow>
      select_round x TimestampTick s = (Continue, s)
      \<and> select_round x QuotesTick s = (Continue, s)
      \<and> select_round x MarketTick s = (Continue, s))
   \<and> (\<not> showingHelp s \<and> \<not> paused s \<longrightarrow>
      select_round x TimestampTick s = (Continue, s\<lparr>world := call (Draw [TheTime]) (world s)\<rparr>)
      \<and> select_round x QuotesTick s = (Continue, s\<lparr>world := call (Draw [TheQuotes]) (world s)\<rparr>)
      \<and> select_round x MarketTick s
          = (Continue, s\<lparr>world := call (Draw [TheMarket]) (world s)\<rparr>))"
  by (auto simp: select_round_def tick_def)

theorem ticks_gated_by_help_and_pause_witness:
  "(showingHelp pausing \<or> paused pausing)
   \<and> select_round plain_collab QuotesTick pausing = (Continue, pausing)
   \<and> \<not> showingHelp start_Loop \<and> \<not> paused start_Loop
   \<and> trace (world (snd (select_round plain_collab QuotesTick start_Loop)))
       = trace (world start_Loop) @ [Draw [TheQuotes]]"
proof -
  have a: "showingHelp pausing \<or> paused pausing"
    by (simp add: pausing_def select_round_def keyboard_def command_key_def char_event_def
        rune_def start_Loop_def)
  have b: "\<not> showingHelp start_Loop \<and> \<not> paused start_Loop"
    by (simp add: start_Loop_def)
  from a b
    ticks_gated_by_help_and_pause [of pausing plain_collab]
    ticks_gated_by_help_and_pause [of start_Loop plain_collab]
  show ?thesis by (simp add: call_def)
qed

section \<open>Properties of the fetch\<close>

text \<open>What \<open>Fetch\<close> does in each of its cases, for quotes that are ready.  A failure of
  the network is recorded and keeps the collection; a body that decodes replaces the
  collection and clears the error.\<close>

lemma Fetch_network_failure:
  assumes "isReady quotes"
    and "http_Get lib
           (quotesURLv7 (Join (Tickers (Profile quotes)) '','') @ quotesURLv7QueryParts)
         = GetError err
       \<or> http_Get lib
           (quotesURLv7 (Join (Tickers (Profile quotes)) '','') @ quotesURLv7QueryParts)
         = ReadError err"
  shows "Fetch lib quotes = quotes\<lparr>errors := fetch_error err\<rparr>"
    and "errors (Fetch lib quotes) \<noteq> []"
    and "Stocks (Fetch lib quotes) = Stocks quotes"
  using assms by (auto simp: Fetch_def fetch_error_def)

lemma Fetch_decoded:
  assumes "isReady quotes"
    and "http_Get lib
           (quotesURLv7 (Join (Tickers (Profile quotes)) '','') @ quotesURLv7QueryParts)
         = Body body"
    and "Unmarshal lib body = Inr d"
  shows "errors (Fetch lib quotes) = []"
    and "Stocks (Fetch lib quotes)
          = Some (map (stock_of_result lib) (d ''quoteResponse'' ''result''))"
  using assms by (simp_all add: Fetch_def parse2_def)

text \<open>A body that does not decode: \<^verbatim>\<open>parse2\<close> returns the error, \<open>Fetch\<close> drops it,
  nothing panics, and the deferred function stores the empty string.\<close>

lemma Fetch_undecoded:
  assumes "isReady quotes"
    and "http_Get lib
           (quotesURLv7 (Join (Tickers (Profile quotes)) '','') @ quotesURLv7QueryParts)
         = Body body"
    and "Unmarshal lib body = Inl err"
  shows "parse2 lib body quotes = (quotes, Some err)"
    and "Fetch lib quotes = quotes\<lparr>errors := []\<rparr>"
  using assms by (simp_all add: Fetch_def parse2_def)

text \<open>
  Claim C9.  The claim holds for a failure of the network (\<open>Fetch_network_failure\<close>) and
  for the clearing after a fetch that decodes (\<open>Fetch_decoded\<close>).  It fails for a fetch
  whose body does not decode: the collection is kept, but the failure is not recorded, and
  the error text of an earlier failure is cleared as if the fetch had succeeded.
\<close>

theorem Fetch_hides_parse_failure:
  "isReady stale_quotes
   \<and> errors stale_quotes \<noteq> []
   \<and> parse2 html_lib html_page stale_quotes
       = (stale_quotes, Some ''invalid character < looking for beginning of value'')
   \<and> Fetch html_lib stale_quotes = stale_quotes\<lparr>errors := []\<rparr>
   \<and> Ok (Fetch html_lib stale_quotes) = (True, [])
   \<and> Stocks (Fetch html_lib stale_quotes) = Some [stock_GOOG, stock_BA]"
proof -
  have r: "isReady stale_quotes"
    by (simp add: isReady_def stale_quotes_def profile_with_def)
  have g: "http_Get html_lib
      (quotesURLv7 (Join (Tickers (Profile stale_quotes)) '','') @ quotesURLv7QueryParts)
      = Body html_page"
    by (simp add: html_lib_def)
  have u: "Unmarshal html_lib html_page
      = Inl ''invalid character < looking for beginning of value''"
    by (simp add: html_lib_def html_page_def)
  have e: "errors stale_quotes \<noteq> []"
    by (simp add: stale_quotes_def fetch_error_def)
  from Fetch_undecoded [OF r g u] r e show ?thesis
    by (simp add: Ok_def) (simp add: stale_quotes_def)
qed

end
